theory Spec2Isabelle
  imports Complex_Main
begin

section \<open>Conventions of the embedding\<close>

text \<open>
  The retargeting engine of \<^verbatim>\<open>src/main.js\<close> is embedded function by function.
  A JavaScript Number is modelled by a real number and the arithmetic of the source is
  read as exact arithmetic: rounding, signed zeros and overflow of IEEE doubles are not
  part of the model. Where the source can leave the finite numbers (a division by
  zero), the model says so with a value of its own instead of using the quotient of
  HOL, which is total. \<^verbatim>\<open>null\<close> and \<^verbatim>\<open>undefined\<close> are \<open>None\<close>.
\<close>

section \<open>Data\<close>

text \<open>
  \<^verbatim>\<open>THREE.Vector3\<close>, and a tracker landmark, which has the same three coordinates and an
  optional \<^verbatim>\<open>visibility\<close>. A landmark can be passed wherever only the coordinates are
  read, as in the source.
\<close>

record vec3 =
  x :: real
  y :: real
  z :: real

record landmark = vec3 +
  visibility :: "real option"

text \<open>The module-level activation flags (lines 157--158), initially both false.\<close>

record armState =
  leftArmActive :: bool
  rightArmActive :: bool

definition initialArms :: armState where
  "initialArms = \<lparr> leftArmActive = False, rightArmActive = False \<rparr>"

datatype error = TypeError

section \<open>Configuration constants\<close>


definition VIS_THRESHOLD_ON :: real where
  "VIS_THRESHOLD_ON = 0.65"

definition VIS_THRESHOLD_OFF :: real where
  "VIS_THRESHOLD_OFF = 0.45"

section \<open>Coordinate mapper\<close>

text \<open>
  \<^verbatim>\<open>function mpToVRM(landmark, mirror = true)\<close>: a new vector, \<open>x\<close> negated when
  \<open>mirror\<close> holds, \<open>y\<close> and \<open>z\<close> always negated. Every call site of the source omits
  \<open>mirror\<close>, which then is true.
\<close>

definition mpToVRM :: "'a vec3_scheme \<Rightarrow> bool \<Rightarrow> vec3" where
  "mpToVRM landmark mirror =
     \<lparr> x = (if mirror then - x landmark else x landmark),
       y = - y landmark,
       z = - z landmark \<rparr>"

section \<open>Hysteresis gate of applyPose\<close>

text \<open>The nullish coalescing \<^verbatim>\<open>v ?? d\<close> of the source.\<close>

definition nullish :: "real option \<Rightarrow> real \<Rightarrow> real" where
  "nullish v d = (case v of None \<Rightarrow> d | Some c \<Rightarrow> c)"

text \<open>
  \<^verbatim>\<open>applyPose\<close>, projected on the two activation flags it owns. The function returns
  at once when no avatar is loaded (\<open>currentVrm\<close> false). It reads
  \<^verbatim>\<open>landmarks[15].visibility\<close> and \<^verbatim>\<open>landmarks[16].visibility\<close> before it writes a flag;
  reading a property of a missing element throws, which leaves the flags as they were.
  The two \<^verbatim>\<open>if / else if\<close> chains are those of lines 2313--2323.
\<close>

definition applyPose :: "bool \<Rightarrow> landmark list \<Rightarrow> armState \<Rightarrow> error + armState" where
  "applyPose currentVrm landmarks s =
     (if \<not> currentVrm then Inr s
      else if length landmarks \<le> 16 then Inl TypeError
      else
        let leftWristVis = nullish (visibility (landmarks ! 15)) 1.0;
            rightWristVis = nullish (visibility (landmarks ! 16)) 1.0;
            l = (if \<not> leftArmActive s \<and> leftWristVis > VIS_THRESHOLD_ON then True
                 else if leftArmActive s \<and> leftWristVis < VIS_THRESHOLD_OFF then False
                 else leftArmActive s);
            r = (if \<not> rightArmActive s \<and> rightWristVis > VIS_THRESHOLD_ON then True
                 else if rightArmActive s \<and> rightWristVis < VIS_THRESHOLD_OFF then False
                 else rightArmActive s)
        in Inr \<lparr> leftArmActive = l, rightArmActive = r \<rparr>)"

text \<open>
  The frame loop calls \<^verbatim>\<open>applyPose\<close> once for each processed pose frame; the states
  after each frame, in order.
\<close>

fun applyPoseFrames :: "landmark list list \<Rightarrow> armState \<Rightarrow> error + armState list" where
  "applyPoseFrames [] s = Inr []"
| "applyPoseFrames (f # fs) s =
     (case applyPose True f s of
        Inl e \<Rightarrow> Inl e
      | Inr s' \<Rightarrow>
          (case applyPoseFrames fs s' of
             Inl e \<Rightarrow> Inl e
           | Inr ss \<Rightarrow> Inr (s' # ss)))"

text \<open>A frame of 33 landmarks at the origin, all with the same visibility.\<close>

definition uniformFrame :: "real option \<Rightarrow> landmark list" where
  "uniformFrame v = replicate 33 \<lparr> x = 0, y = 0, z = 0, visibility = v \<rparr>"

section \<open>Adaptive filter\<close>

text \<open>
  \<^verbatim>\<open>class OneEuroFilter\<close>. The three memory fields are \<^verbatim>\<open>null\<close> until the first call
  (and after \<^verbatim>\<open>reset\<close>).
\<close>

record OneEuroFilter =
  minCutoff :: real
  beta :: real
  dCutoff :: real
  xPrev :: "real option"
  dxPrev :: "real option"
  tPrev :: "real option"

text \<open>The constructor; its defaults are \<open>minCutoff = 1.0\<close>, \<open>beta = 0.007\<close>, \<open>dCutoff = 1.0\<close>.\<close>

definition newOneEuroFilter :: "real \<Rightarrow> real \<Rightarrow> real \<Rightarrow> OneEuroFilter" where
  "newOneEuroFilter mc b dc =
     \<lparr> minCutoff = mc, beta = b, dCutoff = dc, xPrev = None, dxPrev = None, tPrev = None \<rparr>"

text \<open>A \<^verbatim>\<open>null\<close> operand of an arithmetic operator counts as 0.\<close>

definition toNumber :: "real option \<Rightarrow> real" where
  "toNumber v = (case v of None \<Rightarrow> 0 | Some r \<Rightarrow> r)"

text \<open>
  \<^verbatim>\<open>smoothingFactor(te, cutoff)\<close>. When \<open>r + 1\<close> is zero the source divides \<open>-1\<close> by zero
  and gets an infinity; the model returns \<open>None\<close> there.
\<close>

definition smoothingFactor :: "real \<Rightarrow> real \<Rightarrow> real option" where
  "smoothingFactor te cutoff =
     (let r = 2 * pi * cutoff * te
      in if r + 1 = 0 then None else Some (r / (r + 1)))"

text \<open>
  \<^verbatim>\<open>filter(x, t)\<close>, returning the value of the call and the filter after it. The first
  parameter is called \<open>v\<close> here. The result is \<open>None\<close> when one of the two smoothing
  factors is infinite: the value the source then returns and stores is an infinity or
  NaN, and the model does not follow the filter further. A returned \<open>Some None\<close> is a
  returned \<^verbatim>\<open>null\<close>.
\<close>

definition filter_OneEuro ::
  "OneEuroFilter \<Rightarrow> real \<Rightarrow> real \<Rightarrow> (real option \<times> OneEuroFilter) option" where
  "filter_OneEuro f v t =
     (case tPrev f of
        None \<Rightarrow> Some (Some v, f\<lparr> xPrev := Some v, dxPrev := Some 0, tPrev := Some t \<rparr>)
      | Some tp \<Rightarrow>
          let te = t - tp in
          if te \<le> 0 then Some (xPrev f, f)
          else
            let dx = (v - toNumber (xPrev f)) / te in
            (case smoothingFactor te (dCutoff f) of
               None \<Rightarrow> None
             | Some alphaDx \<Rightarrow>
                 let dxFiltered = alphaDx * dx + (1 - alphaDx) * toNumber (dxPrev f);
                     cutoff = minCutoff f + beta f * \<bar>dxFiltered\<bar>
                 in (case smoothingFactor te cutoff of
                       None \<Rightarrow> None
                     | Some alpha \<Rightarrow>
                         let xFiltered = alpha * v + (1 - alpha) * toNumber (xPrev f)
                         in Some (Some xFiltered,
                                  f\<lparr> xPrev := Some xFiltered, dxPrev := Some dxFiltered,
                                     tPrev := Some t \<rparr>))))"

definition reset :: "OneEuroFilter \<Rightarrow> OneEuroFilter" where
  "reset f = f\<lparr> xPrev := None, dxPrev := None, tPrev := None \<rparr>"

text \<open>
  A sequence of calls on one filter, each sample a value and its timestamp; the values
  returned, in order, and the filter after the last call.
\<close>

fun feed ::
  "OneEuroFilter \<Rightarrow> (real \<times> real) list \<Rightarrow> (real option list \<times> OneEuroFilter) option" where
  "feed f [] = Some ([], f)"
| "feed f ((v, t) # rest) =
     (case filter_OneEuro f v t of
        None \<Rightarrow> None
      | Some (r, f') \<Rightarrow>
          (case feed f' rest of
             None \<Rightarrow> None
           | Some (rs, f'') \<Rightarrow> Some (r # rs, f'')))"

subsection \<open>The filter as the specification words it\<close>

text \<open>
  The smoothing factor \<open>\<alpha>(elapsed, cutoff) = r / (r + 1)\<close> with
  \<open>r = 2\<pi> \<cdot> cutoff \<cdot> elapsed\<close>, and the exponential blend of a new value with an old one.
\<close>

definition spec_alpha :: "real \<Rightarrow> real \<Rightarrow> real" where
  "spec_alpha elapsed cutoff = (2 * pi * cutoff * elapsed) / (2 * pi * cutoff * elapsed + 1)"

definition spec_blend :: "real \<Rightarrow> real \<Rightarrow> real \<Rightarrow> real" where
  "spec_blend a new old = a * new + (1 - a) * old"

text \<open>
  Outputs that approach \<open>c\<close> without overshoot: each lies between its predecessor and
  \<open>c\<close>, and is no farther from \<open>c\<close> than its predecessor.
\<close>

fun noOvershoot :: "real \<Rightarrow> real \<Rightarrow> real list \<Rightarrow> bool" where
  "noOvershoot c prev [] = True"
| "noOvershoot c prev (r # rs) =
     (min prev c \<le> r \<and> r \<le> max prev c \<and> \<bar>r - c\<bar> \<le> \<bar>prev - c\<bar> \<and> noOvershoot c r rs)"

text \<open>The pose filters of the source: \<^verbatim>\<open>new OneEuroFilter3D(1.5, 0.01)\<close>, after a first sample.\<close>

definition poseFilterAfter :: "real \<Rightarrow> real \<Rightarrow> OneEuroFilter" where
  "poseFilterAfter v t =
     (newOneEuroFilter 1.5 0.01 1.0) \<lparr> xPrev := Some v, dxPrev := Some 0, tPrev := Some t \<rparr>"

section \<open>Damped interpolation\<close>





section \<open>Finger curl estimator\<close>

text \<open>\<^verbatim>\<open>Vector3.distanceTo\<close> and \<^verbatim>\<open>THREE.MathUtils.clamp(value, min, max)\<close> of three.js.\<close>

definition distanceTo :: "'a vec3_scheme \<Rightarrow> 'b vec3_scheme \<Rightarrow> real" where
  "distanceTo a b = sqrt ((x a - x b)\<^sup>2 + (y a - y b)\<^sup>2 + (z a - z b)\<^sup>2)"

definition clamp :: "real \<Rightarrow> real \<Rightarrow> real \<Rightarrow> real" where
  "clamp v lo hi = max lo (min hi v)"

datatype finger = Thumb | Index | Middle | Ring | Little

record fingerJoints =
  mcp :: nat
  pip :: nat
  dip :: nat
  tip :: nat

text \<open>The table \<^verbatim>\<open>FINGER_JOINTS\<close> (lines 2457--2463).\<close>

fun FINGER_JOINTS :: "finger \<Rightarrow> fingerJoints" where
  "FINGER_JOINTS Thumb = \<lparr> mcp = 1, pip = 2, dip = 3, tip = 4 \<rparr>"
| "FINGER_JOINTS Index = \<lparr> mcp = 5, pip = 6, dip = 7, tip = 8 \<rparr>"
| "FINGER_JOINTS Middle = \<lparr> mcp = 9, pip = 10, dip = 11, tip = 12 \<rparr>"
| "FINGER_JOINTS Ring = \<lparr> mcp = 13, pip = 14, dip = 15, tip = 16 \<rparr>"
| "FINGER_JOINTS Little = \<lparr> mcp = 17, pip = 18, dip = 19, tip = 20 \<rparr>"

text \<open>
  The body of the loop of \<^verbatim>\<open>applyFingers\<close> for one finger, up to the curl it hands to
  \<^verbatim>\<open>applyThumbCurl\<close> or \<^verbatim>\<open>applyFingerCurl\<close>. Reading a coordinate of a missing landmark
  throws. When the three segments have total length 0 the four joints coincide and the
  source divides 0 by 0: the curl is NaN through both clamps and the power, \<open>None\<close> here.
  \<^verbatim>\<open>Math.pow(curl, 0.7)\<close> is taken of a curl in \<open>[0, 1]\<close>, where it is \<open>curl powr 0.7\<close>.

  \<open>rawCurl\<close> is the value of \<open>curl\<close> after the first clamp (line 2492) and
  \<open>fingerCurl\<close> its value after the second (line 2496).
\<close>

definition rawCurl :: "'a vec3_scheme list \<Rightarrow> finger \<Rightarrow> error + real option" where
  "rawCurl landmarks fingerName =
     (let joints = FINGER_JOINTS fingerName in
      if length landmarks \<le> tip joints then Inl TypeError
      else
        let mcpPos = landmarks ! mcp joints;
            pipPos = landmarks ! pip joints;
            dipPos = landmarks ! dip joints;
            tipPos = landmarks ! tip joints;
            seg1 = distanceTo mcpPos pipPos;
            seg2 = distanceTo pipPos dipPos;
            seg3 = distanceTo dipPos tipPos;
            totalLength = seg1 + seg2 + seg3;
            straightDist = distanceTo mcpPos tipPos
        in if totalLength = 0 then Inr None
           else
             let curl = 1 - straightDist / totalLength;
                 curl = clamp curl 0 1
             in Inr (Some curl))"

definition fingerCurl :: "'a vec3_scheme list \<Rightarrow> finger \<Rightarrow> error + real option" where
  "fingerCurl landmarks fingerName =
     (case rawCurl landmarks fingerName of
        Inl e \<Rightarrow> Inl e
      | Inr None \<Rightarrow> Inr None
      | Inr (Some curl) \<Rightarrow>
          let curl = (curl powr 0.7) * 1.5;
              curl = clamp curl 0 1
          in Inr (Some curl))"

subsection \<open>The estimator as the specification words it\<close>

definition spec_curl :: "real \<Rightarrow> real \<Rightarrow> real" where
  "spec_curl straightLength arcLength =
     clamp ((clamp (1 - straightLength / arcLength) 0 1) powr 0.7 * 1.5) 0 1"

text \<open>\<open>q\<close> is the point \<open>p + s \<cdot> u\<close>.\<close>

definition along :: "'a vec3_scheme \<Rightarrow> vec3 \<Rightarrow> real \<Rightarrow> 'a vec3_scheme \<Rightarrow> bool" where
  "along p u s q \<longleftrightarrow>
     x q = x p + s * x u \<and> y q = y p + s * y u \<and> z q = z p + s * z u"

text \<open>
  A hand of 21 landmarks: the wrist at the origin and, for each of the five fingers, the
  same four joint positions.
\<close>

definition handFrame :: "vec3 \<Rightarrow> vec3 \<Rightarrow> vec3 \<Rightarrow> vec3 \<Rightarrow> vec3 list" where
  "handFrame a b c d = \<lparr> x = 0, y = 0, z = 0 \<rparr> # concat (replicate 5 [a, b, c, d])"

section \<open>Two-bone IK solver\<close>

subsection \<open>Vectors and quaternions of three.js\<close>

text \<open>
  The \<^verbatim>\<open>Vector3\<close> methods the solver calls. \<^verbatim>\<open>normalize\<close> divides by
  \<^verbatim>\<open>this.length() || 1\<close>, so it leaves the zero vector as it is; \<^verbatim>\<open>setLength(l)\<close> is
  \<^verbatim>\<open>normalize().multiplyScalar(l)\<close>. The methods mutate their receiver; here they
  return the new vector.
\<close>

definition lengthSq :: "'a vec3_scheme \<Rightarrow> real" where
  "lengthSq v = x v * x v + y v * y v + z v * z v"

definition length_vec :: "'a vec3_scheme \<Rightarrow> real" where
  "length_vec v = sqrt (x v * x v + y v * y v + z v * z v)"

definition multiplyScalar :: "'a vec3_scheme \<Rightarrow> real \<Rightarrow> vec3" where
  "multiplyScalar v s = \<lparr> x = x v * s, y = y v * s, z = z v * s \<rparr>"

definition normalize_vec :: "'a vec3_scheme \<Rightarrow> vec3" where
  "normalize_vec v = multiplyScalar v (1 / (if length_vec v = 0 then 1 else length_vec v))"

definition setLength :: "'a vec3_scheme \<Rightarrow> real \<Rightarrow> vec3" where
  "setLength v l = multiplyScalar (normalize_vec v) l"

definition crossVectors :: "'a vec3_scheme \<Rightarrow> 'b vec3_scheme \<Rightarrow> vec3" where
  "crossVectors a b =
     \<lparr> x = y a * z b - z a * y b,
       y = z a * x b - x a * z b,
       z = x a * y b - y a * x b \<rparr>"

record quat =
  qx :: real
  qy :: real
  qz :: real
  qw :: real

text \<open>\<^verbatim>\<open>Quaternion.setFromAxisAngle(axis, angle)\<close>; the axis is taken as it is, not normalised.\<close>

definition setFromAxisAngle :: "'a vec3_scheme \<Rightarrow> real \<Rightarrow> quat" where
  "setFromAxisAngle axis angle =
     (let halfAngle = angle / 2; s = sin halfAngle
      in \<lparr> qx = x axis * s, qy = y axis * s, qz = z axis * s, qw = cos halfAngle \<rparr>)"


subsection \<open>Quotients, clamp and arc cosine outside the finite numbers\<close>

text \<open>
  The two cosines of the solver are quotients whose divisor can be zero. A quotient is a
  finite number, an infinity or NaN; the model has one zero, so a non-zero number over
  zero is the infinity of the sign of the number. \<^verbatim>\<open>THREE.MathUtils.clamp\<close> is
  \<^verbatim>\<open>Math.max(min, Math.min(max, value))\<close>, which maps the infinities to the bounds and
  keeps NaN. \<^verbatim>\<open>Math.acos\<close> returns a number for an argument in \<open>[-1, 1]\<close> and NaN
  (\<open>None\<close>) otherwise.
\<close>

datatype jsnum = Fin real | PosInf | NegInf | NaN

definition jsdiv :: "real \<Rightarrow> real \<Rightarrow> jsnum" where
  "jsdiv n d =
     (if d \<noteq> 0 then Fin (n / d)
      else if n = 0 then NaN
      else if 0 < n then PosInf else NegInf)"

fun clampJs :: "jsnum \<Rightarrow> real \<Rightarrow> real \<Rightarrow> jsnum" where
  "clampJs (Fin v) lo hi = Fin (max lo (min hi v))"
| "clampJs PosInf lo hi = Fin (max lo hi)"
| "clampJs NegInf lo hi = Fin lo"
| "clampJs NaN lo hi = NaN"

fun acosJs :: "jsnum \<Rightarrow> real option" where
  "acosJs (Fin v) = (if - 1 \<le> v \<and> v \<le> 1 then Some (arccos v) else None)"
| "acosJs PosInf = None"
| "acosJs NegInf = None"
| "acosJs NaN = None"

subsection \<open>The solver\<close>

text \<open>
  \<^verbatim>\<open>solveTwoBoneIK\<close> returns nothing: it rotates the two bones towards rotations that
  it computes from two angles and a bend-plane normal. The model follows it step by
  step, under the numbers of the comments of the source, and collects what it computes:
  the clamped target and its distance \<open>c\<close>, the two angles, the normalised plane
  normal, the bend rotation \<open>qBend\<close> about it and the hinge rotation \<open>qLowerLocal\<close> of
  the lower bone. A rotation built from a NaN angle has NaN components and is \<open>None\<close>.
  The steps from \<open>qBend\<close> to the rotation of the upper bone (\<^verbatim>\<open>setFromUnitVectors\<close>,
  twist alignment, the parent's world rotation, \<^verbatim>\<open>slerp\<close>) are quaternion algebra of
  three.js on these values and are not part of the model.
\<close>

text \<open>Step 1 (lines 2191--2203): the target, rescaled, and its distance after the clamp.\<close>

definition ikClampTarget :: "real \<Rightarrow> real \<Rightarrow> vec3 \<Rightarrow> vec3 \<times> real" where
  "ikClampTarget a b targetPos =
     (let dist = length_vec targetPos;
          epsilon = 0.001;
          maxLen = a + b - epsilon;
          minLen = \<bar>a - b\<bar> + epsilon
      in if dist > maxLen then (setLength targetPos maxLen, maxLen)
         else if dist < minLen then (setLength targetPos minLen, minLen)
         else (targetPos, dist))"

text \<open>Steps 2 and 3 (lines 2205--2212): the law of cosines on \<open>a\<close>, \<open>b\<close> and \<open>c\<close>.\<close>

definition ikShoulderAngle :: "real \<Rightarrow> real \<Rightarrow> real \<Rightarrow> real option" where
  "ikShoulderAngle a b c =
     (let cosShoulderAngle = jsdiv (a * a + c * c - b * b) (2 * a * c)
      in acosJs (clampJs cosShoulderAngle (- 1) 1))"

definition ikElbowAngle :: "real \<Rightarrow> real \<Rightarrow> real \<Rightarrow> real option" where
  "ikElbowAngle a b c =
     (let cosElbowAngle = jsdiv (a * a + b * b - c * c) (2 * a * b)
      in acosJs (clampJs cosElbowAngle (- 1) 1))"

text \<open>
  Step 4 (lines 2214--2228): the bend-plane normal from the clamped target and the
  pole, with the two fallbacks, normalised.
\<close>

definition ikPlaneNormal :: "vec3 \<Rightarrow> vec3 \<Rightarrow> vec3" where
  "ikPlaneNormal targetPos polePos =
     (let dirToTarget = normalize_vec targetPos;
          dirToPole = normalize_vec polePos;
          planeNormal = crossVectors dirToTarget dirToPole;
          planeNormal =
            (if lengthSq planeNormal < 0.0001 then
               let planeNormal = crossVectors dirToTarget \<lparr> x = 0, y = 1, z = 0 \<rparr>
               in if lengthSq planeNormal < 0.0001
                  then crossVectors dirToTarget \<lparr> x = 0, y = 0, z = 1 \<rparr>
                  else planeNormal
             else planeNormal)
      in normalize_vec planeNormal)"

record ikResult =
  ikTarget :: vec3
  ikDist :: real
  shoulderAngle :: "real option"
  elbowAngle :: "real option"
  planeNormal :: vec3
  qBend :: "quat option"
  bendAngle :: "real option"
  qLowerLocal :: "quat option"

text \<open>
  The whole function. It does nothing when a bone is missing (the result is \<open>None\<close>).
  Step 5 is \<open>qBend\<close> (line 2232) and step 8 the hinge rotation of the lower bone about
  the local axis \<open>(0, 1, 0)\<close> by \<open>-bendAngle\<close>, or \<open>bendAngle\<close>, with
  \<open>bendAngle = \<pi> - elbowAngle\<close> (lines 2253--2259).
\<close>

definition solveTwoBoneIK ::
  "bool \<Rightarrow> bool \<Rightarrow> real \<Rightarrow> real \<Rightarrow> vec3 \<Rightarrow> vec3 \<Rightarrow> vec3 \<Rightarrow> ikResult option" where
  "solveTwoBoneIK upperBone lowerBone upperLength lowerLength targetPos polePos boneAxis =
     (if \<not> upperBone \<or> \<not> lowerBone then None
      else
        let a = upperLength;
            b = lowerLength;
            (targetPos, dist) = ikClampTarget a b targetPos;
            c = dist;
            shoulder = ikShoulderAngle a b c;
            elbow = ikElbowAngle a b c;
            normal = ikPlaneNormal targetPos polePos;
            bend = map_option (\<lambda>e. pi - e) elbow
        in Some \<lparr> ikTarget = targetPos, ikDist = c,
                   shoulderAngle = shoulder, elbowAngle = elbow,
                   planeNormal = normal,
                   qBend = map_option (setFromAxisAngle normal) shoulder,
                   bendAngle = bend,
                   qLowerLocal =
                     map_option
                       (\<lambda>bendAngle. setFromAxisAngle \<lparr> x = 0, y = 1, z = 0 \<rparr>
                          (- bendAngle * (if x boneAxis < 0 then 1 else - 1)))
                       bend \<rparr>)"


section \<open>Coordinate mapper: properties\<close>

text \<open>
  C8. The mapping is a pure function of the point and the flag. Its \<open>y\<close> and \<open>z\<close>
  components do not depend on the flag, the mirrored mapping negates \<open>x\<close>, and the
  mirrored mapping applied twice gives back the original \<open>x\<close>.
\<close>

theorem mpToVRM_mirror:
  "y (mpToVRM p True) = y (mpToVRM p False)
   \<and> z (mpToVRM p True) = z (mpToVRM p False)
   \<and> y (mpToVRM p m) = - y p \<and> z (mpToVRM p m) = - z p
   \<and> x (mpToVRM p True) = - x p
   \<and> x (mpToVRM p False) = x p
   \<and> x (mpToVRM (mpToVRM p True) True) = x p"
  by (simp add: mpToVRM_def)

section \<open>Hysteresis gate: properties\<close>

lemma uniformFrame_length: "length (uniformFrame v) = 33"
  by (simp add: uniformFrame_def)

lemma uniformFrame_nth: "i < 33 \<Longrightarrow> visibility (uniformFrame v ! i) = v"
  by (simp add: uniformFrame_def)

lemma applyPose_step:
  assumes "16 < length f"
  shows "applyPose True f s =
     Inr \<lparr> leftArmActive =
             (if \<not> leftArmActive s \<and> nullish (visibility (f ! 15)) 1 > 0.65 then True
              else if leftArmActive s \<and> nullish (visibility (f ! 15)) 1 < 0.45 then False
              else leftArmActive s),
           rightArmActive =
             (if \<not> rightArmActive s \<and> nullish (visibility (f ! 16)) 1 > 0.65 then True
              else if rightArmActive s \<and> nullish (visibility (f ! 16)) 1 < 0.45 then False
              else rightArmActive s) \<rparr>"
  using assms
  by (simp add: applyPose_def Let_def VIS_THRESHOLD_ON_def VIS_THRESHOLD_OFF_def)

text \<open>
  C1. On a processed frame (an avatar is loaded, the frame has its wrist landmarks
  15 and 16), each arm's flag follows the two-threshold state machine on the wrist
  confidence \<open>c\<close>: an inactive arm is active afterwards exactly when \<open>c > 0.65\<close>, an
  active arm is inactive afterwards exactly when \<open>c < 0.45\<close>, and a confidence in
  \<open>[0.45, 0.65]\<close> leaves the flag as it was. Starting from the initial state (both
  inactive), four frames whose wrist confidences are 0.7, 0.5, 0.3, 0.7 give the states
  active, active, inactive, active, for the left and for the right flag.
\<close>

theorem hysteresis_gate:
  assumes "16 < length f"
    and "length f1 = 33" and "length f2 = 33" and "length f3 = 33" and "length f4 = 33"
    and "\<forall>i \<in> {15, 16}. visibility (f1 ! i) = Some 0.7 \<and> visibility (f2 ! i) = Some 0.5
           \<and> visibility (f3 ! i) = Some 0.3 \<and> visibility (f4 ! i) = Some 0.7"
  shows "\<exists>s'. applyPose True f s = Inr s'
     \<and> (\<not> leftArmActive s \<longrightarrow>
          (leftArmActive s' \<longleftrightarrow> nullish (visibility (f ! 15)) 1 > 0.65))
     \<and> (leftArmActive s \<longrightarrow>
          (\<not> leftArmActive s' \<longleftrightarrow> nullish (visibility (f ! 15)) 1 < 0.45))
     \<and> (0.45 \<le> nullish (visibility (f ! 15)) 1 \<and> nullish (visibility (f ! 15)) 1 \<le> 0.65 \<longrightarrow>
          leftArmActive s' = leftArmActive s)
     \<and> (\<not> rightArmActive s \<longrightarrow>
          (rightArmActive s' \<longleftrightarrow> nullish (visibility (f ! 16)) 1 > 0.65))
     \<and> (rightArmActive s \<longrightarrow>
          (\<not> rightArmActive s' \<longleftrightarrow> nullish (visibility (f ! 16)) 1 < 0.45))
     \<and> (0.45 \<le> nullish (visibility (f ! 16)) 1 \<and> nullish (visibility (f ! 16)) 1 \<le> 0.65 \<longrightarrow>
          rightArmActive s' = rightArmActive s)
     \<and> (\<exists>ss. applyPoseFrames [f1, f2, f3, f4] initialArms = Inr ss
          \<and> map leftArmActive ss = [True, True, False, True]
          \<and> map rightArmActive ss = [True, True, False, True])"
proof -
  have step: "applyPose True f s = Inr \<lparr> leftArmActive =
             (if \<not> leftArmActive s \<and> nullish (visibility (f ! 15)) 1 > 0.65 then True
              else if leftArmActive s \<and> nullish (visibility (f ! 15)) 1 < 0.45 then False
              else leftArmActive s),
           rightArmActive =
             (if \<not> rightArmActive s \<and> nullish (visibility (f ! 16)) 1 > 0.65 then True
              else if rightArmActive s \<and> nullish (visibility (f ! 16)) 1 < 0.45 then False
              else rightArmActive s) \<rparr>"
    by (rule applyPose_step [OF assms(1)])
  have l: "16 < length f1" "16 < length f2" "16 < length f3" "16 < length f4"
    using assms(2-5) by simp_all
  have v: "visibility (f1 ! 15) = Some 0.7" "visibility (f2 ! 15) = Some 0.5"
    "visibility (f3 ! 15) = Some 0.3" "visibility (f4 ! 15) = Some 0.7"
    "visibility (f1 ! 16) = Some 0.7" "visibility (f2 ! 16) = Some 0.5"
    "visibility (f3 ! 16) = Some 0.3" "visibility (f4 ! 16) = Some 0.7"
    using assms(6) by simp_all
  have run: "\<exists>ss. applyPoseFrames [f1, f2, f3, f4] initialArms = Inr ss
          \<and> map leftArmActive ss = [True, True, False, True]
          \<and> map rightArmActive ss = [True, True, False, True]"
    by (simp add: applyPose_step l v initialArms_def nullish_def)
  show ?thesis
    unfolding step using run by auto
qed

theorem hysteresis_gate_witness:
  "\<exists>s'. applyPose True (uniformFrame (Some 0.5)) initialArms = Inr s'
     \<and> \<not> leftArmActive s' \<and> \<not> rightArmActive s'
     \<and> (\<exists>ss. applyPoseFrames
            [uniformFrame (Some 0.7), uniformFrame (Some 0.5),
             uniformFrame (Some 0.3), uniformFrame (Some 0.7)] initialArms = Inr ss
          \<and> map leftArmActive ss = [True, True, False, True]
          \<and> map rightArmActive ss = [True, True, False, True])"
  using hysteresis_gate [of "uniformFrame (Some 0.5)"
      "uniformFrame (Some 0.7)" "uniformFrame (Some 0.5)"
      "uniformFrame (Some 0.3)" "uniformFrame (Some 0.7)" initialArms]
  by (simp add: uniformFrame_length uniformFrame_nth initialArms_def nullish_def)

text \<open>
  C9. A wrist landmark without a visibility field counts as confidence 1.0, which is
  above the activation threshold: after such a frame the arm is active, whether it was
  inactive (it is switched on) or active (it is not switched off).
\<close>

theorem missing_visibility_activates:
  assumes "16 < length f"
  shows "\<exists>s'. applyPose True f s = Inr s'
     \<and> (visibility (f ! 15) = None \<longrightarrow>
          nullish (visibility (f ! 15)) 1.0 = 1 \<and> leftArmActive s')
     \<and> (visibility (f ! 16) = None \<longrightarrow>
          nullish (visibility (f ! 16)) 1.0 = 1 \<and> rightArmActive s')"
  unfolding applyPose_step [OF assms]
  by (simp add: nullish_def)

theorem missing_visibility_activates_witness:
  "\<exists>s'. applyPose True (uniformFrame None) initialArms = Inr s'
     \<and> leftArmActive s' \<and> rightArmActive s'"
  using missing_visibility_activates [of "uniformFrame None" initialArms]
  by (auto simp add: uniformFrame_length uniformFrame_nth)

section \<open>Adaptive filter: properties\<close>

lemma filter_first_call:
  "tPrev f = None \<Longrightarrow>
     filter_OneEuro f v t =
       Some (Some v, f\<lparr> xPrev := Some v, dxPrev := Some 0, tPrev := Some t \<rparr>)"
  by (simp add: filter_OneEuro_def)

text \<open>
  C7. A call whose timestamp is not after the stored one returns the stored previous
  value and leaves the whole filter as it was; it ends before any division (its result
  is a value, never the \<open>None\<close> of an infinite factor). Since nothing changed, a second
  such call, with any value and any timestamp not after the stored one, returns the
  same value again and still leaves the filter unchanged.
\<close>

theorem filter_nonpositive_elapsed:
  assumes "tPrev f = Some tp" and "t \<le> tp"
  shows "filter_OneEuro f v t = Some (xPrev f, f)
     \<and> (\<forall>v' t'. t' \<le> tp \<longrightarrow> feed f [(v, t), (v', t')] = Some ([xPrev f, xPrev f], f))"
  using assms by (simp add: filter_OneEuro_def)

theorem filter_nonpositive_elapsed_witness:
  "tPrev (poseFilterAfter 7 5) = Some 5 \<and> (3::real) \<le> 5
   \<and> filter_OneEuro (poseFilterAfter 7 5) 9 3 = Some (Some 7, poseFilterAfter 7 5)
   \<and> feed (poseFilterAfter 7 5) [(9, 3), (8, 5)] = Some ([Some 7, Some 7], poseFilterAfter 7 5)"
proof -
  have a: "tPrev (poseFilterAfter 7 5) = Some 5" and b: "(3::real) \<le> 5"
    and c: "xPrev (poseFilterAfter 7 5) = Some 7"
    by (simp_all add: poseFilterAfter_def)
  note th = filter_nonpositive_elapsed [OF a b, of 9, unfolded c]
  from th have 1: "filter_OneEuro (poseFilterAfter 7 5) 9 3 = Some (Some 7, poseFilterAfter 7 5)"
    by (rule conjunct1)
  from th have "(5::real) \<le> 5 \<longrightarrow>
      feed (poseFilterAfter 7 5) [(9, 3), (8, 5)] = Some ([Some 7, Some 7], poseFilterAfter 7 5)"
    by blast
  then have 2: "feed (poseFilterAfter 7 5) [(9, 3), (8, 5)]
      = Some ([Some 7, Some 7], poseFilterAfter 7 5)"
    by simp
  show ?thesis using a b 1 2 by simp
qed

text \<open>
  C3. On a call after the first (the three memory fields hold numbers) whose elapsed
  time \<open>te = t - tPrev\<close> is positive, the returned value is
  \<open>\<alpha> \<cdot> value + (1 - \<alpha>) \<cdot> xPrev\<close> with \<open>\<alpha> = r / (r + 1)\<close>, \<open>r = 2\<pi> \<cdot> cutoff \<cdot> te\<close>,
  \<open>cutoff = minCutoff + beta \<cdot> \<bar>dxFiltered\<bar>\<close>, and \<open>dxFiltered\<close> the blend of the raw
  derivative \<open>(value - xPrev) / te\<close> with \<open>dxPrev\<close> by \<open>\<alpha>(te, dCutoff)\<close>; the filter
  then stores the new value, the new derivative and the timestamp of the call. The only
  calls left out are those where a denominator \<open>r + 1\<close> is zero, where the factor is
  infinite.
\<close>

theorem filter_update_formula:
  assumes "tPrev f = Some tp" and "xPrev f = Some xp" and "dxPrev f = Some dp"
    and "0 < t - tp"
  shows "filter_OneEuro f v t =
    (let te = t - tp;
         dxFiltered = spec_blend (spec_alpha te (dCutoff f)) ((v - xp) / te) dp;
         cutoff = minCutoff f + beta f * \<bar>dxFiltered\<bar>;
         xFiltered = spec_blend (spec_alpha te cutoff) v xp
     in if 2 * pi * dCutoff f * te + 1 = 0 \<or> 2 * pi * cutoff * te + 1 = 0 then None
        else Some (Some xFiltered,
                   f\<lparr> xPrev := Some xFiltered, dxPrev := Some dxFiltered, tPrev := Some t \<rparr>))"
  using assms
  by (simp add: filter_OneEuro_def smoothingFactor_def Let_def toNumber_def
      spec_alpha_def spec_blend_def)

theorem filter_update_formula_witness:
  "tPrev (poseFilterAfter 0 0) = Some 0 \<and> xPrev (poseFilterAfter 0 0) = Some 0
   \<and> dxPrev (poseFilterAfter 0 0) = Some 0 \<and> (0::real) < 1 - 0
   \<and> filter_OneEuro (poseFilterAfter 0 0) 1 1 =
    (let te = 1 - 0;
         dxFiltered = spec_blend (spec_alpha te 1) ((1 - 0) / te) 0;
         cutoff = 1.5 + 0.01 * \<bar>dxFiltered\<bar>;
         xFiltered = spec_blend (spec_alpha te cutoff) 1 0
     in Some (Some xFiltered,
              (poseFilterAfter 0 0)
                \<lparr> xPrev := Some xFiltered, dxPrev := Some dxFiltered, tPrev := Some 1 \<rparr>))"
proof -
  have d: "2 * pi * 1 * (1 - 0) + 1 \<noteq> (0::real)"
    using pi_ge_two by simp
  have "0 \<le> 2 * pi * (1.5 + 0.01 * \<bar>spec_blend (spec_alpha (1 - 0) 1) ((1 - 0) / (1 - 0)) 0\<bar>) * (1 - 0)"
    by (intro mult_nonneg_nonneg add_nonneg_nonneg) simp_all
  then have c: "2 * pi * (1.5 + 0.01 * \<bar>spec_blend (spec_alpha (1 - 0) 1) ((1 - 0) / (1 - 0)) 0\<bar>) * (1 - 0) + 1 \<noteq> 0"
    by linarith
  show ?thesis
    using filter_update_formula [of "poseFilterAfter 0 0" 0 0 0 1 1] d c
    by (simp add: poseFilterAfter_def newOneEuroFilter_def Let_def)
qed

lemma smoothingFactor_nonneg:
  assumes "0 < te" and "0 \<le> cutoff"
  shows "smoothingFactor te cutoff = Some (2 * pi * cutoff * te / (2 * pi * cutoff * te + 1))"
proof -
  have "0 \<le> 2 * pi * cutoff * te" using assms by simp
  then have "2 * pi * cutoff * te + 1 \<noteq> 0" by linarith
  then show ?thesis by (simp add: smoothingFactor_def Let_def)
qed

lemma blend_sub:
  fixes a :: real
  shows "a * c + (1 - a) * p - c = (1 - a) * (p - c)"
  by (simp add: algebra_simps)

lemma filter_step_general:
  assumes "tPrev f = Some tp" and "0 < t - tp"
    and "smoothingFactor (t - tp) (dCutoff f) = Some aD"
    and "smoothingFactor (t - tp)
           (minCutoff f + beta f *
              \<bar>aD * ((v - toNumber (xPrev f)) / (t - tp)) + (1 - aD) * toNumber (dxPrev f)\<bar>)
         = Some a"
  shows "filter_OneEuro f v t =
     Some (Some (a * v + (1 - a) * toNumber (xPrev f)),
           f\<lparr> xPrev := Some (a * v + (1 - a) * toNumber (xPrev f)),
              dxPrev := Some (aD * ((v - toNumber (xPrev f)) / (t - tp))
                              + (1 - aD) * toNumber (dxPrev f)),
              tPrev := Some t \<rparr>)"
  using assms by (simp add: filter_OneEuro_def Let_def)

lemma blend_toward:
  fixes r :: real
  assumes "0 \<le> k" and "k \<le> r"
  shows "r / (r + 1) * c + (1 - r / (r + 1)) * p - c = (p - c) / (r + 1)"
    and "\<bar>(p - c) / (r + 1)\<bar> \<le> \<bar>p - c\<bar> / (k + 1)"
    and "\<bar>(p - c) / (r + 1)\<bar> \<le> \<bar>p - c\<bar>"
    and "min p c \<le> r / (r + 1) * c + (1 - r / (r + 1)) * p"
    and "r / (r + 1) * c + (1 - r / (r + 1)) * p \<le> max p c"
proof -
  have r1: "0 < r + 1" and k1: "0 < k + 1" and kr: "k + 1 \<le> r + 1" using assms by linarith+
  have one: "1 - r / (r + 1) = 1 / (r + 1)"
    using r1 by (simp add: field_simps)
  have "r / (r + 1) * c + (1 - r / (r + 1)) * p - c = (1 - r / (r + 1)) * (p - c)"
    by (rule blend_sub)
  then show eq: "r / (r + 1) * c + (1 - r / (r + 1)) * p - c = (p - c) / (r + 1)"
    unfolding one by simp
  have "\<bar>(p - c) / (r + 1)\<bar> = \<bar>p - c\<bar> / (r + 1)" using r1 by simp
  also have "\<dots> \<le> \<bar>p - c\<bar> / (k + 1)"
    using k1 kr by (intro divide_left_mono) (auto intro: mult_pos_pos)
  finally show b1: "\<bar>(p - c) / (r + 1)\<bar> \<le> \<bar>p - c\<bar> / (k + 1)" .
  have "\<bar>p - c\<bar> / (r + 1) \<le> \<bar>p - c\<bar> / 1"
    using r1 assms by (intro divide_left_mono) auto
  then show b2: "\<bar>(p - c) / (r + 1)\<bar> \<le> \<bar>p - c\<bar>" using r1 by simp
  define a where "a = r / (r + 1)"
  have a0: "0 \<le> a" and a1: "a \<le> 1" using assms r1 by (simp_all add: a_def)
  have "a * c + (1 - a) * p = p + a * (c - p)" by (simp add: algebra_simps)
  have lo: "min p c \<le> a * c + (1 - a) * p"
  proof -
    have "a * min p c \<le> a * c" "(1 - a) * min p c \<le> (1 - a) * p"
      using a0 a1 by (auto intro!: mult_left_mono)
    then have "a * min p c + (1 - a) * min p c \<le> a * c + (1 - a) * p" by linarith
    then show ?thesis by (simp add: algebra_simps)
  qed
  have hi: "a * c + (1 - a) * p \<le> max p c"
  proof -
    have "a * c \<le> a * max p c" "(1 - a) * p \<le> (1 - a) * max p c"
      using a0 a1 by (auto intro!: mult_left_mono)
    then have "a * c + (1 - a) * p \<le> a * max p c + (1 - a) * max p c" by linarith
    then show ?thesis by (simp add: algebra_simps)
  qed
  show "min p c \<le> r / (r + 1) * c + (1 - r / (r + 1)) * p" using lo by (simp add: a_def)
  show "r / (r + 1) * c + (1 - r / (r + 1)) * p \<le> max p c" using hi by (simp add: a_def)
qed

lemma filter_constant_step:
  assumes mc: "0 < minCutoff f" and b: "0 \<le> beta f" and dc: "0 \<le> dCutoff f"
    and st: "xPrev f = Some xp" "dxPrev f = Some dp" "tPrev f = Some tp"
    and lt: "tp < t"
  shows "\<exists>r d. filter_OneEuro f c t =
            Some (Some r, f\<lparr> xPrev := Some r, dxPrev := Some d, tPrev := Some t \<rparr>)
          \<and> min xp c \<le> r \<and> r \<le> max xp c
          \<and> \<bar>r - c\<bar> \<le> \<bar>xp - c\<bar>
          \<and> \<bar>r - c\<bar> \<le> \<bar>xp - c\<bar> / (1 + 2 * pi * minCutoff f * (t - tp))"
proof -
  define te where "te = t - tp"
  have te: "0 < te" using lt by (simp add: te_def)
  define aD where "aD = 2 * pi * dCutoff f * te / (2 * pi * dCutoff f * te + 1)"
  define d where "d = aD * ((c - xp) / te) + (1 - aD) * dp"
  define cutoff where "cutoff = minCutoff f + beta f * \<bar>d\<bar>"
  define r where "r = 2 * pi * cutoff * te"
  define k where "k = 2 * pi * minCutoff f * te"
  have cut: "minCutoff f \<le> cutoff" using b by (simp add: cutoff_def)
  then have cut0: "0 \<le> cutoff" using mc by linarith
  have k0: "0 \<le> k" using mc te by (simp add: k_def)
  have kr: "k \<le> r" unfolding k_def r_def using cut te
    by (intro mult_right_mono mult_left_mono) auto
  have sD: "smoothingFactor te (dCutoff f) = Some aD"
    unfolding aD_def by (rule smoothingFactor_nonneg [OF te dc])
  have sA: "smoothingFactor te cutoff = Some (r / (r + 1))"
    unfolding r_def by (rule smoothingFactor_nonneg [OF te cut0])
  define out where "out = r / (r + 1) * c + (1 - r / (r + 1)) * xp"
  have run: "filter_OneEuro f c t =
      Some (Some out, f\<lparr> xPrev := Some out, dxPrev := Some d, tPrev := Some t \<rparr>)"
  proof -
    have x: "toNumber (xPrev f) = xp" and dd: "toNumber (dxPrev f) = dp"
      using st by (simp_all add: toNumber_def)
    have "filter_OneEuro f c t =
     Some (Some (r / (r + 1) * c + (1 - r / (r + 1)) * toNumber (xPrev f)),
           f\<lparr> xPrev := Some (r / (r + 1) * c + (1 - r / (r + 1)) * toNumber (xPrev f)),
              dxPrev := Some (aD * ((c - toNumber (xPrev f)) / (t - tp))
                              + (1 - aD) * toNumber (dxPrev f)),
              tPrev := Some t \<rparr>)"
    proof (rule filter_step_general)
      show "tPrev f = Some tp" by (rule st(3))
      show "0 < t - tp" using te by (simp add: te_def)
      show "smoothingFactor (t - tp) (dCutoff f) = Some aD"
        using sD by (simp only: te_def)
      show "smoothingFactor (t - tp)
           (minCutoff f + beta f *
              \<bar>aD * ((c - toNumber (xPrev f)) / (t - tp)) + (1 - aD) * toNumber (dxPrev f)\<bar>)
         = Some (r / (r + 1))"
        using sA unfolding cutoff_def d_def x dd te_def .
    qed
    then show ?thesis unfolding x dd out_def d_def te_def .
  qed
  have eq: "out - c = (xp - c) / (r + 1)"
    unfolding out_def by (rule blend_toward(1) [OF k0 kr])
  have "\<bar>out - c\<bar> \<le> \<bar>xp - c\<bar> / (k + 1)" "\<bar>out - c\<bar> \<le> \<bar>xp - c\<bar>"
    unfolding eq by (rule blend_toward(2) [OF k0 kr], rule blend_toward(3) [OF k0 kr])
  moreover have "min xp c \<le> out" "out \<le> max xp c"
    unfolding out_def by (rule blend_toward(4) [OF k0 kr], rule blend_toward(5) [OF k0 kr])
  moreover have "k + 1 = 1 + 2 * pi * minCutoff f * (t - tp)" by (simp add: k_def te_def)
  ultimately show ?thesis using run by auto
qed


lemma contraction_compose:
  fixes K :: real
  assumes "0 \<le> K" and "t0 < t" and "t < u"
    and "\<bar>r - c\<bar> \<le> \<bar>p - c\<bar> / (1 + K * (t - t0))"
    and "\<bar>q - c\<bar> \<le> \<bar>r - c\<bar> / (1 + K * (u - t))"
  shows "\<bar>q - c\<bar> \<le> \<bar>p - c\<bar> / (1 + K * (u - t0))"
proof -
  define a where "a = K * (t - t0)"
  define b where "b = K * (u - t)"
  have a0: "0 \<le> a" and b0: "0 \<le> b" using assms(1-3) by (simp_all add: a_def b_def)
  have ab: "K * (u - t0) = a + b" by (simp add: a_def b_def algebra_simps)
  have "\<bar>q - c\<bar> \<le> \<bar>r - c\<bar> / (1 + b)" using assms(5) by (simp add: b_def)
  also have "\<dots> \<le> (\<bar>p - c\<bar> / (1 + a)) / (1 + b)"
    using assms(4) b0 by (intro divide_right_mono) (simp_all add: a_def)
  also have "\<dots> = \<bar>p - c\<bar> / ((1 + a) * (1 + b))" by simp
  also have "\<dots> \<le> \<bar>p - c\<bar> / (1 + (a + b))"
  proof (rule divide_left_mono)
    have "0 \<le> a * b" using a0 b0 by simp
    then show "1 + (a + b) \<le> (1 + a) * (1 + b)" by (simp add: algebra_simps)
    show "0 \<le> \<bar>p - c\<bar>" by simp
    show "0 < (1 + a) * (1 + b) * (1 + (a + b))" using a0 b0 by (intro mult_pos_pos) linarith+
  qed
  finally show ?thesis by (simp add: ab)
qed


lemma feed_constant:
  assumes "0 < minCutoff f" and "0 \<le> beta f" and "0 \<le> dCutoff f"
    and "xPrev f = Some x0" and "dxPrev f = Some d0" and "tPrev f = Some t0"
    and "sorted_wrt (<) (t0 # ts)"
  shows "\<exists>rs f'. feed f (map (Pair c) ts) = Some (map Some rs, f')
     \<and> length rs = length ts
     \<and> noOvershoot c x0 rs
     \<and> (\<forall>i < length ts.
           \<bar>rs ! i - c\<bar> \<le> \<bar>x0 - c\<bar> / (1 + 2 * pi * minCutoff f * (ts ! i - t0)))"
  using assms
proof (induction ts arbitrary: f x0 d0 t0)
  case Nil
  then show ?case by simp
next
  case (Cons t ts)
  have lt: "t0 < t" using Cons.prems(7) by simp
  have later: "\<forall>u \<in> set ts. t < u" and sorted: "sorted_wrt (<) (t # ts)"
    using Cons.prems(7) by simp_all
  from filter_constant_step [OF Cons.prems(1-6) lt, of c]
  obtain r d where run: "filter_OneEuro f c t =
        Some (Some r, f\<lparr> xPrev := Some r, dxPrev := Some d, tPrev := Some t \<rparr>)"
    and btw: "min x0 c \<le> r" "r \<le> max x0 c" "\<bar>r - c\<bar> \<le> \<bar>x0 - c\<bar>"
    and bnd: "\<bar>r - c\<bar> \<le> \<bar>x0 - c\<bar> / (1 + 2 * pi * minCutoff f * (t - t0))"
    by blast
  define f1 where "f1 = f\<lparr> xPrev := Some r, dxPrev := Some d, tPrev := Some t \<rparr>"
  have p1: "0 < minCutoff f1" "0 \<le> beta f1" "0 \<le> dCutoff f1"
    "xPrev f1 = Some r" "dxPrev f1 = Some d" "tPrev f1 = Some t"
    using Cons.prems(1-3) by (simp_all add: f1_def)
  from Cons.IH [OF p1 sorted]
  obtain rs f' where rest: "feed f1 (map (Pair c) ts) = Some (map Some rs, f')"
    and len: "length rs = length ts"
    and nov: "noOvershoot c r rs"
    and bnds: "\<forall>i < length ts.
           \<bar>rs ! i - c\<bar> \<le> \<bar>r - c\<bar> / (1 + 2 * pi * minCutoff f1 * (ts ! i - t))"
    by blast
  have mc1: "minCutoff f1 = minCutoff f" by (simp add: f1_def)
  have K0: "0 \<le> 2 * pi * minCutoff f" using Cons.prems(1) by simp
  have fd: "feed f (map (Pair c) (t # ts)) = Some (map Some (r # rs), f')"
    using run rest by (simp add: f1_def)
  have all: "\<bar>(r # rs) ! i - c\<bar> \<le> \<bar>x0 - c\<bar> / (1 + 2 * pi * minCutoff f * ((t # ts) ! i - t0))"
    if "i < length (t # ts)" for i
  proof (cases i)
    case 0
    then show ?thesis using bnd by simp
  next
    case (Suc j)
    then have j: "j < length ts" using that by simp
    then have tu: "t < ts ! j" using later by simp
    have "\<bar>rs ! j - c\<bar> \<le> \<bar>r - c\<bar> / (1 + 2 * pi * minCutoff f * (ts ! j - t))"
      using bnds j mc1 by simp
    from contraction_compose [OF K0 lt tu bnd this]
    show ?thesis using Suc by simp
  qed
  show ?case
    using fd len nov btw all by (intro exI [of _ "r # rs"] exI [of _ f']) simp
qed



text \<open>
  From a new filter the first call returns \<open>c\<close> itself, so with the same parameters a
  constant fed from the start is returned unchanged by every call.
\<close>

lemma feed_constant_fresh:
  assumes "0 < mc" and "0 \<le> b" and "0 \<le> dc" and "sorted_wrt (<) (t0 # ts)"
  shows "\<exists>f'. feed (newOneEuroFilter mc b dc) (map (Pair c) (t0 # ts))
           = Some (replicate (Suc (length ts)) (Some c), f')"
proof -
  define f where "f = (newOneEuroFilter mc b dc)
      \<lparr> xPrev := Some c, dxPrev := Some 0, tPrev := Some t0 \<rparr>"
  have first: "filter_OneEuro (newOneEuroFilter mc b dc) c t0 = Some (Some c, f)"
    by (simp add: filter_OneEuro_def newOneEuroFilter_def f_def)
  have "0 < minCutoff f" "0 \<le> beta f" "0 \<le> dCutoff f"
    "xPrev f = Some c" "dxPrev f = Some 0" "tPrev f = Some t0"
    using assms(1-3) by (simp_all add: f_def newOneEuroFilter_def)
  from feed_constant [OF this assms(4), of c]
  obtain rs f' where run: "feed f (map (Pair c) ts) = Some (map Some rs, f')"
    and len: "length rs = length ts"
    and bnd: "\<forall>i < length ts.
           \<bar>rs ! i - c\<bar> \<le> \<bar>c - c\<bar> / (1 + 2 * pi * minCutoff f * (ts ! i - t0))"
    by blast
  have "rs ! i = c" if "i < length rs" for i
    using bnd that len by simp
  then have "rs = replicate (length ts) c"
    using len by (intro nth_equalityI) simp_all
  then have "map Some rs = replicate (length ts) (Some c)" by simp
  then show ?thesis using first run by simp
qed




section \<open>Damped interpolation: properties\<close>






section \<open>Finger curl estimator: properties\<close>

lemma finger_tip_bound: "tip (FINGER_JOINTS fingerName) < 21"
  by (cases fingerName) simp_all

lemma rawCurl_value:
  assumes "length landmarks = 21"
    and "distanceTo (landmarks ! mcp (FINGER_JOINTS fingerName))
                    (landmarks ! pip (FINGER_JOINTS fingerName))
       + distanceTo (landmarks ! pip (FINGER_JOINTS fingerName))
                    (landmarks ! dip (FINGER_JOINTS fingerName))
       + distanceTo (landmarks ! dip (FINGER_JOINTS fingerName))
                    (landmarks ! tip (FINGER_JOINTS fingerName)) = arc"
    and "distanceTo (landmarks ! mcp (FINGER_JOINTS fingerName))
                    (landmarks ! tip (FINGER_JOINTS fingerName)) = straight"
    and "arc \<noteq> 0"
  shows "rawCurl landmarks fingerName = Inr (Some (clamp (1 - straight / arc) 0 1))"
  using assms finger_tip_bound [of fingerName]
  by (simp add: rawCurl_def Let_def)

lemma fingerCurl_value:
  assumes "rawCurl landmarks fingerName = Inr (Some c)"
  shows "fingerCurl landmarks fingerName = Inr (Some (clamp (c powr 0.7 * 1.5) 0 1))"
  using assms by (simp add: fingerCurl_def)

lemma distanceTo_along:
  assumes "along p u a q" and "along p u b r"
  shows "distanceTo q r = \<bar>a - b\<bar> * sqrt ((x u)\<^sup>2 + (y u)\<^sup>2 + (z u)\<^sup>2)"
proof -
  have "(x q - x r)\<^sup>2 + (y q - y r)\<^sup>2 + (z q - z r)\<^sup>2
      = (a - b)\<^sup>2 * ((x u)\<^sup>2 + (y u)\<^sup>2 + (z u)\<^sup>2)"
    using assms by (simp add: along_def power2_eq_square algebra_simps)
  then show ?thesis
    by (simp add: distanceTo_def real_sqrt_mult)
qed

lemma along_self: "along p u 0 p"
  by (simp add: along_def)

lemma straight_finger_distances:
  assumes "0 \<le> a" and "a \<le> b" and "b \<le> c"
    and "along m u a p" and "along m u b d" and "along m u c t"
  shows "distanceTo m p + distanceTo p d + distanceTo d t = distanceTo m t"
proof -
  define L where "L = sqrt ((x u)\<^sup>2 + (y u)\<^sup>2 + (z u)\<^sup>2)"
  have "distanceTo m p = a * L" "distanceTo p d = (b - a) * L"
    "distanceTo d t = (c - b) * L" "distanceTo m t = c * L"
    using assms(1-3)
      distanceTo_along [OF along_self assms(4)] distanceTo_along [OF assms(4) assms(5)]
      distanceTo_along [OF assms(5) assms(6)] distanceTo_along [OF along_self assms(6)]
    by (simp_all add: L_def)
  then show ?thesis by (simp add: algebra_simps)
qed

lemma reshape_six_tenths: "clamp (0.6 powr 0.7 * 1.5) 0 1 = 1"
proof -
  define w :: real where "w = 0.6 powr 0.7"
  have w0: "0 \<le> w" by (simp add: w_def)
  have "2 / 3 \<le> w"
  proof (rule ccontr)
    assume "\<not> 2 / 3 \<le> w"
    then have "w < 2 / 3" by simp
    then have "w powr 10 < (2 / 3) powr 10"
      using w0 by (intro powr_less_mono2) simp_all
    moreover have "w powr 10 = 0.6 powr 7" by (simp add: w_def powr_powr)
    moreover have "(0.6::real) powr 7 = 0.6 ^ 7" by (simp only: powr_numeral)
    moreover have "((2 / 3)::real) powr 10 = (2 / 3) ^ 10" by (simp only: powr_numeral)
    ultimately have "(0.6::real) ^ 7 < (2 / 3) ^ 10" by simp
    then show False by (simp add: power_divide)
  qed
  then have "1 \<le> w * 1.5" by simp
  then show ?thesis by (simp add: clamp_def w_def)
qed

text \<open>
  C6. On a hand frame of 21 landmarks, for each finger whose three segments have a
  non-zero total length \<open>arc\<close>, the curl handed to the bones is
  \<open>clamp (clamp (1 - straight / arc) 0 1 powr 0.7 \<cdot> 1.5) 0 1\<close>, where \<open>straight\<close> is the
  distance from MCP to TIP. A straight finger (PIP, DIP and TIP in this order on a ray
  from MCP) has curl 0. A finger folded so that \<open>straight = 0.4 \<cdot> arc\<close> has raw curl 0.6
  and curl \<open>clamp (0.6 powr 0.7 \<cdot> 1.5) 0 1\<close>, a number between 0.98 and 1.
\<close>

theorem finger_curl_formula:
  assumes "length landmarks = 21"
  shows "let joints = FINGER_JOINTS fingerName;
             MCP = landmarks ! mcp joints; PIP = landmarks ! pip joints;
             DIP = landmarks ! dip joints; TIP = landmarks ! tip joints;
             arc = distanceTo MCP PIP + distanceTo PIP DIP + distanceTo DIP TIP;
             straight = distanceTo MCP TIP
         in (arc \<noteq> 0 \<longrightarrow>
               fingerCurl landmarks fingerName = Inr (Some (spec_curl straight arc)))
          \<and> (arc \<noteq> 0 \<and> 0 \<le> a \<and> a \<le> b \<and> b \<le> c
               \<and> along MCP u a PIP \<and> along MCP u b DIP \<and> along MCP u c TIP \<longrightarrow>
               fingerCurl landmarks fingerName = Inr (Some 0))
          \<and> (arc \<noteq> 0 \<and> straight = 0.4 * arc \<longrightarrow>
               rawCurl landmarks fingerName = Inr (Some 0.6)
               \<and> fingerCurl landmarks fingerName = Inr (Some (clamp (0.6 powr 0.7 * 1.5) 0 1))
               \<and> 0.98 \<le> clamp (0.6 powr 0.7 * 1.5) 0 1
               \<and> clamp (0.6 powr 0.7 * 1.5) 0 1 \<le> 1)"
proof -
  define MCP where "MCP = landmarks ! mcp (FINGER_JOINTS fingerName)"
  define PIP where "PIP = landmarks ! pip (FINGER_JOINTS fingerName)"
  define DIP where "DIP = landmarks ! dip (FINGER_JOINTS fingerName)"
  define TIP where "TIP = landmarks ! tip (FINGER_JOINTS fingerName)"
  define arc where "arc = distanceTo MCP PIP + distanceTo PIP DIP + distanceTo DIP TIP"
  define straight where "straight = distanceTo MCP TIP"
  have raw: "rawCurl landmarks fingerName = Inr (Some (clamp (1 - straight / arc) 0 1))"
    if "arc \<noteq> 0"
    using that
    by (intro rawCurl_value [OF assms])
       (simp_all add: arc_def straight_def MCP_def PIP_def DIP_def TIP_def)
  have general: "fingerCurl landmarks fingerName = Inr (Some (spec_curl straight arc))"
    if "arc \<noteq> 0"
    using fingerCurl_value [OF raw [OF that]] by (simp add: spec_curl_def)
  have flat: "fingerCurl landmarks fingerName = Inr (Some 0)"
    if "arc \<noteq> 0" and "0 \<le> a" "a \<le> b" "b \<le> c"
      and "along MCP u a PIP" "along MCP u b DIP" "along MCP u c TIP"
  proof -
    have "arc = straight"
      unfolding arc_def straight_def by (rule straight_finger_distances [OF that(2-7)])
    then have "straight / arc = 1" using that(1) by simp
    then have "rawCurl landmarks fingerName = Inr (Some 0)"
      using raw [OF that(1)] by (simp add: clamp_def)
    from fingerCurl_value [OF this] show ?thesis by (simp add: clamp_def)
  qed
  have folded: "rawCurl landmarks fingerName = Inr (Some 0.6)
      \<and> fingerCurl landmarks fingerName = Inr (Some (clamp (0.6 powr 0.7 * 1.5) 0 1))"
    if "arc \<noteq> 0" and "straight = 0.4 * arc"
  proof -
    have "straight / arc = 0.4" using that by simp
    then have "clamp (1 - straight / arc) 0 1 = 0.6"
      by (simp only: clamp_def)
    then have r: "rawCurl landmarks fingerName = Inr (Some 0.6)"
      using raw [OF that(1)] by (simp only:)
    from r fingerCurl_value [OF r] show ?thesis by simp
  qed
  have bounds: "0.98 \<le> clamp (0.6 powr 0.7 * 1.5) 0 1 \<and> clamp (0.6 powr 0.7 * 1.5) 0 1 \<le> 1"
    unfolding reshape_six_tenths by simp
  have "(arc \<noteq> 0 \<longrightarrow>
               fingerCurl landmarks fingerName = Inr (Some (spec_curl straight arc)))
          \<and> (arc \<noteq> 0 \<and> 0 \<le> a \<and> a \<le> b \<and> b \<le> c
               \<and> along MCP u a PIP \<and> along MCP u b DIP \<and> along MCP u c TIP \<longrightarrow>
               fingerCurl landmarks fingerName = Inr (Some 0))
          \<and> (arc \<noteq> 0 \<and> straight = 0.4 * arc \<longrightarrow>
               rawCurl landmarks fingerName = Inr (Some 0.6)
               \<and> fingerCurl landmarks fingerName = Inr (Some (clamp (0.6 powr 0.7 * 1.5) 0 1))
               \<and> 0.98 \<le> clamp (0.6 powr 0.7 * 1.5) 0 1
               \<and> clamp (0.6 powr 0.7 * 1.5) 0 1 \<le> 1)"
    using general flat folded bounds by blast
  then show ?thesis
    unfolding Let_def arc_def straight_def MCP_def PIP_def DIP_def TIP_def .
qed

lemma handFrame_length: "length (handFrame p0 p1 p2 p3) = 21"
  by (simp add: handFrame_def eval_nat_numeral)

lemma handFrame_index:
  "handFrame p0 p1 p2 p3 ! 5 = p0" "handFrame p0 p1 p2 p3 ! 6 = p1"
  "handFrame p0 p1 p2 p3 ! 7 = p2" "handFrame p0 p1 p2 p3 ! 8 = p3"
  by (simp_all add: handFrame_def eval_nat_numeral)

lemma sqrt_nine_sixteen: "sqrt 9 = 3" "sqrt 16 = 4"
  using real_sqrt_abs [of 3] real_sqrt_abs [of 4] by simp_all

theorem finger_curl_formula_witness:
  "length (handFrame \<lparr>x = 0, y = 0, z = 0\<rparr> \<lparr>x = 1, y = 0, z = 0\<rparr>
                     \<lparr>x = 2, y = 0, z = 0\<rparr> \<lparr>x = 3, y = 0, z = 0\<rparr>) = 21
   \<and> fingerCurl (handFrame \<lparr>x = 0, y = 0, z = 0\<rparr> \<lparr>x = 1, y = 0, z = 0\<rparr>
                     \<lparr>x = 2, y = 0, z = 0\<rparr> \<lparr>x = 3, y = 0, z = 0\<rparr>) Index = Inr (Some 0)
   \<and> rawCurl (handFrame \<lparr>x = 0, y = 0, z = 0\<rparr> \<lparr>x = 0, y = 3, z = 0\<rparr>
                     \<lparr>x = 4, y = 3, z = 0\<rparr> \<lparr>x = 4, y = 0, z = 0\<rparr>) Index = Inr (Some 0.6)
   \<and> fingerCurl (handFrame \<lparr>x = 0, y = 0, z = 0\<rparr> \<lparr>x = 0, y = 3, z = 0\<rparr>
                     \<lparr>x = 4, y = 3, z = 0\<rparr> \<lparr>x = 4, y = 0, z = 0\<rparr>) Index
       = Inr (Some (clamp (0.6 powr 0.7 * 1.5) 0 1))"
proof -
  define flat where "flat = handFrame \<lparr>x = 0, y = 0, z = 0\<rparr> \<lparr>x = 1, y = 0, z = 0\<rparr>
                     \<lparr>x = 2, y = 0, z = 0\<rparr> \<lparr>x = 3, y = 0, z = 0\<rparr>"
  define bent where "bent = handFrame \<lparr>x = 0, y = 0, z = 0\<rparr> \<lparr>x = 0, y = 3, z = 0\<rparr>
                     \<lparr>x = 4, y = 3, z = 0\<rparr> \<lparr>x = 4, y = 0, z = 0\<rparr>"
  have lf: "length flat = 21" and lb: "length bent = 21"
    by (simp_all add: flat_def bent_def handFrame_length)
  have 1: "fingerCurl flat Index = Inr (Some 0)"
    using finger_curl_formula [OF lf, of Index 1 2 3 "\<lparr>x = 1, y = 0, z = 0\<rparr>"]
    by (auto simp add: flat_def handFrame_index Let_def distanceTo_def along_def
        spec_curl_def clamp_def)
  have 2: "rawCurl bent Index = Inr (Some 0.6)
      \<and> fingerCurl bent Index = Inr (Some (clamp (0.6 powr 0.7 * 1.5) 0 1))"
    using finger_curl_formula [OF lb, of Index 0 0 0 "\<lparr>x = 0, y = 0, z = 0\<rparr>"]
    by (auto simp add: bent_def handFrame_index Let_def distanceTo_def sqrt_nine_sixteen
        spec_curl_def clamp_def)
  show ?thesis
    using lf 1 2 unfolding flat_def bent_def by blast
qed

section \<open>Two-bone IK solver: properties\<close>

subsection \<open>Vectors\<close>

lemma lengthSq_nonneg: "0 \<le> lengthSq v"
  by (simp add: lengthSq_def)

lemma length_vec_sqrt: "length_vec v = sqrt (lengthSq v)"
  by (simp add: length_vec_def lengthSq_def)

lemma length_vec_zero_iff: "length_vec v = 0 \<longleftrightarrow> lengthSq v = 0"
  by (simp add: length_vec_sqrt)

lemma lengthSq_multiplyScalar: "lengthSq (multiplyScalar v s) = s * s * lengthSq v"
  by (simp add: lengthSq_def multiplyScalar_def algebra_simps)

lemma normalize_vec_unit:
  assumes "lengthSq v \<noteq> 0"
  shows "lengthSq (normalize_vec v) = 1"
proof -
  define L where "L = length_vec v"
  have pos: "0 < lengthSq v" using assms lengthSq_nonneg [of v] by linarith
  have L2: "L * L = lengthSq v"
    using pos by (simp add: L_def length_vec_sqrt)
  have L0: "L \<noteq> 0" using pos by (simp add: L_def length_vec_sqrt)
  have "lengthSq (normalize_vec v) = (1 / L) * (1 / L) * lengthSq v"
    using L0 by (simp add: normalize_vec_def lengthSq_multiplyScalar L_def)
  also have "\<dots> = lengthSq v / (L * L)" by simp
  also have "\<dots> = 1" using L2 pos by simp
  finally show ?thesis .
qed

lemma normalize_vec_zero:
  assumes "lengthSq v = 0"
  shows "normalize_vec v = \<lparr> x = x v, y = y v, z = z v \<rparr>"
  using assms by (simp add: normalize_vec_def multiplyScalar_def length_vec_zero_iff)

lemma length_vec_setLength:
  assumes "lengthSq v \<noteq> 0"
  shows "length_vec (setLength v l) = \<bar>l\<bar>"
proof -
  have "lengthSq (setLength v l) = l * l"
    by (simp add: setLength_def lengthSq_multiplyScalar normalize_vec_unit [OF assms])
  then show ?thesis by (simp add: length_vec_sqrt)
qed





subsection \<open>The bend-plane normal\<close>





subsection \<open>The clamp on the target distance\<close>

lemma ikClampTarget_dist:
  "snd (ikClampTarget a b targetPos) =
     (if length_vec targetPos > a + b - 0.001 then a + b - 0.001
      else if length_vec targetPos < \<bar>a - b\<bar> + 0.001 then \<bar>a - b\<bar> + 0.001
      else length_vec targetPos)"
  by (simp add: ikClampTarget_def Let_def)


lemma ikClampTarget_range:
  assumes "0.001 \<le> a" and "0.001 \<le> b"
  shows "\<bar>a - b\<bar> + 0.001 \<le> snd (ikClampTarget a b targetPos)"
    and "snd (ikClampTarget a b targetPos) \<le> a + b - 0.001"
  using assms by (auto simp add: ikClampTarget_dist)



subsection \<open>The two angles\<close>

lemma acos_clamped_defined:
  assumes "d \<noteq> 0"
  shows "acosJs (clampJs (jsdiv n d) (- 1) 1) = Some (arccos (max (- 1) (min 1 (n / d))))"
    and "0 \<le> arccos (max (- 1) (min 1 (n / d)))"
    and "arccos (max (- 1) (min 1 (n / d))) \<le> pi"
proof -
  have r: "- 1 \<le> max (- 1) (min 1 (n / d))" "max (- 1) (min 1 (n / d)) \<le> 1" by simp_all
  show "acosJs (clampJs (jsdiv n d) (- 1) 1) = Some (arccos (max (- 1) (min 1 (n / d))))"
    using assms by (simp add: jsdiv_def)
  show "0 \<le> arccos (max (- 1) (min 1 (n / d)))" by (rule arccos_lbound [OF r])
  show "arccos (max (- 1) (min 1 (n / d))) \<le> pi" by (rule arccos_ubound [OF r])
qed

lemma acos_clamped_strict:
  assumes "0 < d" and "- d < n" and "n < d"
  shows "acosJs (clampJs (jsdiv n d) (- 1) 1) = Some (arccos (n / d))"
    and "0 < arccos (n / d)" and "arccos (n / d) < pi"
proof -
  have lo: "- 1 < n / d" using assms by (simp add: pos_less_divide_eq)
  have hi: "n / d < 1" using assms by (simp add: pos_divide_less_eq)
  have "max (- 1) (min 1 (n / d)) = n / d" using lo hi by simp
  then show "acosJs (clampJs (jsdiv n d) (- 1) 1) = Some (arccos (n / d))"
    using acos_clamped_defined(1) [of d n] assms(1) by simp
  show "0 < arccos (n / d)" "arccos (n / d) < pi"
    using arccos_lt_bounded [OF lo hi] by simp_all
qed

lemma triangle_cosines:
  fixes a b c :: real
  assumes "0 < a" and "0 < b" and "\<bar>a - b\<bar> < c" and "c < a + b"
  shows "- (2 * a * b) < a * a + b * b - c * c" and "a * a + b * b - c * c < 2 * a * b"
    and "- (2 * a * c) < a * a + c * c - b * b" and "a * a + c * c - b * b < 2 * a * c"
    and "0 < 2 * a * b" and "0 < 2 * a * c"
proof -
  have c0: "0 < c" using assms(3) by linarith
  have "0 < (a + b - c) * (a + b + c)" using assms c0 by (intro mult_pos_pos) linarith+
  then show "- (2 * a * b) < a * a + b * b - c * c" by (simp add: algebra_simps)
  have "0 < (c - (a - b)) * (c + (a - b))" using assms by (intro mult_pos_pos) linarith+
  then show "a * a + b * b - c * c < 2 * a * b" by (simp add: algebra_simps)
  have "0 < (a + c - b) * (a + c + b)" using assms c0 by (intro mult_pos_pos) linarith+
  then show "- (2 * a * c) < a * a + c * c - b * b" by (simp add: algebra_simps)
  have "0 < (b - (a - c)) * (b + (a - c))" using assms by (intro mult_pos_pos) linarith+
  then show "a * a + c * c - b * b < 2 * a * c" by (simp add: algebra_simps)
  show "0 < 2 * a * b" "0 < 2 * a * c" using assms c0 by simp_all
qed

lemma ik_angles_strict:
  assumes "0 < a" and "0 < b" and "\<bar>a - b\<bar> < c" and "c < a + b"
  shows "ikElbowAngle a b c = Some (arccos ((a * a + b * b - c * c) / (2 * a * b)))"
    and "0 < arccos ((a * a + b * b - c * c) / (2 * a * b))"
    and "arccos ((a * a + b * b - c * c) / (2 * a * b)) < pi"
    and "ikShoulderAngle a b c = Some (arccos ((a * a + c * c - b * b) / (2 * a * c)))"
    and "0 < arccos ((a * a + c * c - b * b) / (2 * a * c))"
    and "arccos ((a * a + c * c - b * b) / (2 * a * c)) < pi"
  using acos_clamped_strict [OF triangle_cosines(5,1,2) [OF assms]]
    acos_clamped_strict [OF triangle_cosines(6,3,4) [OF assms]]
  by (simp_all add: ikElbowAngle_def ikShoulderAngle_def)


lemma solveTwoBoneIK_unfold:
  "solveTwoBoneIK True True a b targetPos polePos boneAxis =
     Some \<lparr> ikTarget = fst (ikClampTarget a b targetPos),
            ikDist = snd (ikClampTarget a b targetPos),
            shoulderAngle = ikShoulderAngle a b (snd (ikClampTarget a b targetPos)),
            elbowAngle = ikElbowAngle a b (snd (ikClampTarget a b targetPos)),
            planeNormal = ikPlaneNormal (fst (ikClampTarget a b targetPos)) polePos,
            qBend = map_option
                      (setFromAxisAngle (ikPlaneNormal (fst (ikClampTarget a b targetPos)) polePos))
                      (ikShoulderAngle a b (snd (ikClampTarget a b targetPos))),
            bendAngle = map_option (\<lambda>e. pi - e)
                          (ikElbowAngle a b (snd (ikClampTarget a b targetPos))),
            qLowerLocal =
              map_option
                (\<lambda>bendAngle. setFromAxisAngle \<lparr> x = 0, y = 1, z = 0 \<rparr>
                   (- bendAngle * (if x boneAxis < 0 then 1 else - 1)))
                (map_option (\<lambda>e. pi - e)
                   (ikElbowAngle a b (snd (ikClampTarget a b targetPos)))) \<rparr>"
  by (simp add: solveTwoBoneIK_def Let_def split_beta)

subsection \<open>Boundary targets\<close>

text \<open>
  C2, as the code has it. When both bones are at least \<open>\<epsilon> = 0.001\<close> long (the clamp
  interval \<open>[\<bar>a - b\<bar> + \<epsilon>, a + b - \<epsilon>]\<close> is not empty), the solver runs on a distance
  \<open>c\<close> inside that interval for every target: a target at distance exactly \<open>a + b\<close>
  is solved at \<open>c = a + b - \<epsilon>\<close> and one at distance exactly \<open>\<bar>a - b\<bar>\<close> at
  \<open>c = \<bar>a - b\<bar> + \<epsilon>\<close>. Both cosines then lie strictly inside \<open>(-1, 1)\<close>, so no target
  gives an undefined angle: the elbow angle is \<open>arccos ((a\<^sup>2 + b\<^sup>2 - c\<^sup>2) / (2ab))\<close>,
  strictly between 0 and \<open>\<pi>\<close>, as are the bend angle \<open>\<pi> - elbowAngle\<close> of the lower
  bone and the shoulder angle. The arm is never exactly straight nor exactly folded.
\<close>

theorem ik_clamped_elbow_angle:
  assumes "0.001 \<le> a" and "0.001 \<le> b"
  shows "\<exists>r e s. solveTwoBoneIK True True a b targetPos polePos boneAxis = Some r
     \<and> \<bar>a - b\<bar> + 0.001 \<le> ikDist r \<and> ikDist r \<le> a + b - 0.001
     \<and> (length_vec targetPos = a + b \<longrightarrow> ikDist r = a + b - 0.001)
     \<and> (length_vec targetPos = \<bar>a - b\<bar> \<longrightarrow> ikDist r = \<bar>a - b\<bar> + 0.001)
     \<and> elbowAngle r = Some e
     \<and> e = arccos ((a * a + b * b - ikDist r * ikDist r) / (2 * a * b))
     \<and> 0 < e \<and> e < pi
     \<and> bendAngle r = Some (pi - e) \<and> 0 < pi - e \<and> pi - e < pi
     \<and> shoulderAngle r = Some s \<and> 0 < s \<and> s < pi"
proof -
  define c where "c = snd (ikClampTarget a b targetPos)"
  have a0: "0 < a" and b0: "0 < b" using assms by simp_all
  have lo: "\<bar>a - b\<bar> + 0.001 \<le> c" and hi: "c \<le> a + b - 0.001"
    unfolding c_def by (rule ikClampTarget_range [OF assms])+
  have lo': "\<bar>a - b\<bar> < c" and hi': "c < a + b" using lo hi by simp_all
  have far: "c = a + b - 0.001" if "length_vec targetPos = a + b"
    using that by (simp add: c_def ikClampTarget_dist)
  have near: "c = \<bar>a - b\<bar> + 0.001" if "length_vec targetPos = \<bar>a - b\<bar>"
    using that assms by (auto simp add: c_def ikClampTarget_dist)
  note ang = ik_angles_strict [OF a0 b0 lo' hi']
  define r where "r = the (solveTwoBoneIK True True a b targetPos polePos boneAxis)"
  have run: "solveTwoBoneIK True True a b targetPos polePos boneAxis = Some r"
    by (simp add: r_def solveTwoBoneIK_unfold)
  have fields: "ikDist r = c" "elbowAngle r = ikElbowAngle a b c"
    "shoulderAngle r = ikShoulderAngle a b c"
    "bendAngle r = map_option (\<lambda>e. pi - e) (ikElbowAngle a b c)"
    by (simp_all add: r_def solveTwoBoneIK_unfold c_def)
  show ?thesis
    using run lo hi far near ang unfolding fields [symmetric]
    by (intro exI [of _ r]
          exI [of _ "arccos ((a * a + b * b - ikDist r * ikDist r) / (2 * a * b))"]
          exI [of _ "arccos ((a * a + ikDist r * ikDist r - b * b) / (2 * a * ikDist r))"])
       (simp add: fields)
qed

lemma length_vec_axis:
  "length_vec \<lparr> x = 3, y = 0, z = 0 \<rparr> = 3" "length_vec \<lparr> x = 1, y = 0, z = 0 \<rparr> = 1"
  using real_sqrt_abs [of 3] by (simp_all add: length_vec_def)

theorem ik_clamped_elbow_angle_witness:
  "(0.001::real) \<le> 2 \<and> (0.001::real) \<le> 1
   \<and> length_vec \<lparr> x = 3, y = 0, z = 0 \<rparr> = 2 + 1
   \<and> (\<exists>r e. solveTwoBoneIK True True 2 1 \<lparr> x = 3, y = 0, z = 0 \<rparr>
               \<lparr> x = 0, y = - 1, z = 0 \<rparr> \<lparr> x = - 1, y = 0, z = 0 \<rparr> = Some r
          \<and> ikDist r = 2.999 \<and> elbowAngle r = Some e \<and> 0 < e \<and> e < pi
          \<and> bendAngle r = Some (pi - e))
   \<and> length_vec \<lparr> x = 1, y = 0, z = 0 \<rparr> = \<bar>2 - 1\<bar>
   \<and> (\<exists>r e. solveTwoBoneIK True True 2 1 \<lparr> x = 1, y = 0, z = 0 \<rparr>
               \<lparr> x = 0, y = - 1, z = 0 \<rparr> \<lparr> x = - 1, y = 0, z = 0 \<rparr> = Some r
          \<and> ikDist r = 1.001 \<and> elbowAngle r = Some e \<and> 0 < e \<and> e < pi
          \<and> bendAngle r = Some (pi - e))"
  using ik_clamped_elbow_angle [of 2 1 "\<lparr> x = 3, y = 0, z = 0 \<rparr>"
      "\<lparr> x = 0, y = - 1, z = 0 \<rparr>" "\<lparr> x = - 1, y = 0, z = 0 \<rparr>"]
    ik_clamped_elbow_angle [of 2 1 "\<lparr> x = 1, y = 0, z = 0 \<rparr>"
      "\<lparr> x = 0, y = - 1, z = 0 \<rparr>" "\<lparr> x = - 1, y = 0, z = 0 \<rparr>"]
  by (auto simp add: length_vec_axis)

text \<open>
  The claim C2 as it is written promises elbow angle 0 at distance \<open>a + b\<close> and \<open>\<pi>\<close> at
  distance \<open>\<bar>a - b\<bar>\<close>. With \<open>a = 2\<close> and \<open>b = 1\<close>, the target \<open>(3, 0, 0)\<close> at distance
  \<open>a + b\<close> is solved at \<open>c = 2.999\<close>, and neither the elbow angle nor the bend angle is
  0; the target \<open>(1, 0, 0)\<close> at distance \<open>\<bar>a - b\<bar>\<close> is solved at \<open>c = 1.001\<close>, and
  neither angle is \<open>\<pi>\<close>.
\<close>

theorem ik_boundary_not_exact:
  "(\<exists>r e. solveTwoBoneIK True True 2 1 \<lparr> x = 3, y = 0, z = 0 \<rparr>
             \<lparr> x = 0, y = - 1, z = 0 \<rparr> \<lparr> x = - 1, y = 0, z = 0 \<rparr> = Some r
        \<and> length_vec \<lparr> x = 3, y = 0, z = 0 \<rparr> = 2 + 1
        \<and> ikDist r = 2.999
        \<and> elbowAngle r = Some e \<and> bendAngle r = Some (pi - e)
        \<and> e \<noteq> 0 \<and> pi - e \<noteq> 0)
   \<and> (\<exists>r e. solveTwoBoneIK True True 2 1 \<lparr> x = 1, y = 0, z = 0 \<rparr>
             \<lparr> x = 0, y = - 1, z = 0 \<rparr> \<lparr> x = - 1, y = 0, z = 0 \<rparr> = Some r
        \<and> length_vec \<lparr> x = 1, y = 0, z = 0 \<rparr> = \<bar>2 - 1\<bar>
        \<and> ikDist r = 1.001
        \<and> elbowAngle r = Some e \<and> bendAngle r = Some (pi - e)
        \<and> e \<noteq> pi \<and> pi - e \<noteq> pi)"
proof -
  have far: "snd (ikClampTarget 2 1 \<lparr> x = 3, y = 0, z = 0 \<rparr>) = 2.999"
    and near: "snd (ikClampTarget 2 1 \<lparr> x = 1, y = 0, z = 0 \<rparr>) = 1.001"
    by (simp_all add: ikClampTarget_dist length_vec_axis)
  have f: "\<bar>2 - 1\<bar> < (2.999::real)" "(2.999::real) < 2 + 1"
    and n: "\<bar>2 - 1\<bar> < (1.001::real)" "(1.001::real) < 2 + 1"
    by simp_all
  note angF = ik_angles_strict(1-3) [OF _ _ f, simplified]
  note angN = ik_angles_strict(1-3) [OF _ _ n, simplified]
  show ?thesis
    using angF angN
    by (simp add: solveTwoBoneIK_unfold far near length_vec_axis)
qed

subsection \<open>Degenerate bend planes\<close>



text \<open>
  Why the bone lengths are constrained above: with \<open>a = b = \<epsilon> / 2\<close> the clamped distance
  of any target farther than 0 is \<open>a + b - \<epsilon> = 0\<close>, the shoulder cosine is \<open>0 / 0\<close>, and
  the shoulder angle and the bend rotation are NaN.
\<close>

lemma ik_degenerate_bones_nan:
  "\<exists>r. solveTwoBoneIK True True 0.0005 0.0005 \<lparr> x = 1, y = 0, z = 0 \<rparr>
          \<lparr> x = 0, y = - 1, z = 0 \<rparr> \<lparr> x = - 1, y = 0, z = 0 \<rparr> = Some r
     \<and> ikDist r = 0 \<and> shoulderAngle r = None \<and> qBend r = None"
  by (simp add: solveTwoBoneIK_unfold ikClampTarget_dist length_vec_axis ikShoulderAngle_def
      jsdiv_def)

end
